theory Spec2Isabelle
  imports Complex_Main "HOL-Library.Log_Nat"
begin

section \<open>NDVI calculation over a multi-band raster\<close>

text \<open>
  A model of \<^verbatim>\<open>calculate_ndvi\<close> (NvidiaCalculator.py). The arithmetic of the source is
  numpy's elementwise float32 arithmetic, so the model has three layers: float32 values
  with their special values and rounding, two-dimensional arrays with numpy's
  broadcasting, and the pipeline itself with its exceptions and its calls to the raster
  library.
\<close>

subsection \<open>Exceptions\<close>

text \<open>
  The exceptions the function can meet. \<open>ValueError\<close> is raised by the source itself
  (line 23) and by numpy when two shapes cannot be broadcast; the raster library fails
  with \<open>FileNotFoundError\<close> or with an error of its own, which carries a message.
\<close>

datatype exn = FileNotFoundError | RasterioError string | ValueError string

subsection \<open>float32 values\<close>

text \<open>
  A float32 value is a finite number, an infinity or NaN. The two zeros of IEEE 754
  compare equal and are one value here, so the sign of an infinity that comes from a
  division by zero follows the numerator alone; every such infinity is replaced by 0 on
  line 42 of the source.
\<close>

datatype f32 = Finite real | PInf | NInf | NaN

text \<open>Rounding to the nearest integer, ties to even.\<close>

definition rne :: "real \<Rightarrow> int" where
  "rne y = (let f = \<lfloor>y\<rfloor>; d = y - of_int f
            in if d < 1 / 2 then f
               else if 1 / 2 < d then f + 1
               else if even f then f else f + 1)"

text \<open>
  The binary exponent of a positive number, not below that of the smallest normal
  number: \<open>2 ^ e \<le> x < 2 ^ (e + 1)\<close> for \<open>e = expo x\<close> when \<open>x\<close> is normal.
\<close>

definition expo :: "real \<Rightarrow> int" where
  "expo x = max (- 126)
     (if 1 \<le> x then int (floorlog 2 (nat \<lfloor>x\<rfloor>)) - 1
      else - int (floorlog 2 (nat (\<lceil>1 / x\<rceil> - 1))))"

text \<open>
  The nearest multiple of the spacing \<open>2 ^ (e - 23)\<close> of the 24-bit significands at
  exponent \<open>e\<close>, for a magnitude.
\<close>

definition round_mag :: "real \<Rightarrow> real" where
  "round_mag x =
     (if x = 0 then 0
      else let e = expo x
           in if 23 \<le> e then of_int (rne (x / 2 ^ nat (e - 23))) * 2 ^ nat (e - 23)
              else of_int (rne (x * 2 ^ nat (23 - e))) / 2 ^ nat (23 - e))"

text \<open>Rounding a real result to float32: a magnitude that rounds to \<open>2 ^ 128\<close> overflows.\<close>

definition round32 :: "real \<Rightarrow> f32" where
  "round32 x = (let m = round_mag \<bar>x\<bar>
                in if 2 ^ 128 \<le> m then (if x < 0 then NInf else PInf)
                   else Finite (if x < 0 then - m else m))"

fun fneg :: "f32 \<Rightarrow> f32" where
  "fneg (Finite a) = Finite (- a)"
| "fneg PInf = NInf"
| "fneg NInf = PInf"
| "fneg NaN = NaN"

fun fadd :: "f32 \<Rightarrow> f32 \<Rightarrow> f32" where
  "fadd (Finite a) (Finite b) = round32 (a + b)"
| "fadd NaN _ = NaN"
| "fadd _ NaN = NaN"
| "fadd PInf NInf = NaN"
| "fadd NInf PInf = NaN"
| "fadd PInf _ = PInf"
| "fadd _ PInf = PInf"
| "fadd NInf _ = NInf"
| "fadd _ NInf = NInf"

definition fsub :: "f32 \<Rightarrow> f32 \<Rightarrow> f32" where
  "fsub a b = fadd a (fneg b)"

fun fdiv :: "f32 \<Rightarrow> f32 \<Rightarrow> f32" where
  "fdiv (Finite a) (Finite b) =
     (if b = 0 then (if a = 0 then NaN else if 0 < a then PInf else NInf)
      else round32 (a / b))"
| "fdiv NaN _ = NaN"
| "fdiv _ NaN = NaN"
| "fdiv (Finite a) _ = Finite 0"
| "fdiv PInf (Finite b) = (if 0 \<le> b then PInf else NInf)"
| "fdiv NInf (Finite b) = (if 0 \<le> b then NInf else PInf)"
| "fdiv _ _ = NaN"

fun isnan :: "f32 \<Rightarrow> bool" where
  "isnan NaN = True"
| "isnan _ = False"

fun isinf :: "f32 \<Rightarrow> bool" where
  "isinf PInf = True"
| "isinf NInf = True"
| "isinf _ = False"

fun isfinite :: "f32 \<Rightarrow> bool" where
  "isfinite (Finite a) = True"
| "isfinite _ = False"

text \<open>\<^verbatim>\<open>np.clip(x, lo, hi)\<close> on one value: NaN stays NaN.\<close>

fun clip :: "real \<Rightarrow> real \<Rightarrow> f32 \<Rightarrow> f32" where
  "clip lo hi (Finite a) = Finite (min (max a lo) hi)"
| "clip lo hi PInf = Finite hi"
| "clip lo hi NInf = Finite lo"
| "clip lo hi NaN = NaN"

subsection \<open>Samples of a band and their conversion to float32\<close>

text \<open>
  A sample as stored in the raster, whatever its pixel type: a number (an integer of
  any width, or a finite float), an infinity or NaN. \<^verbatim>\<open>astype(np.float32)\<close> rounds the
  number to float32.
\<close>

datatype sample = Num real | SPInf | SNInf | SNaN

fun astype_float32 :: "sample \<Rightarrow> f32" where
  "astype_float32 (Num a) = round32 a"
| "astype_float32 SPInf = PInf"
| "astype_float32 SNInf = NInf"
| "astype_float32 SNaN = NaN"

subsection \<open>Two-dimensional arrays\<close>

text \<open>
  A dense array is its shape and its cells; only the cells inside the shape belong to
  the array.
\<close>

datatype 'a ndarray = NDArray (nrows: nat) (ncols: nat) (cell: "nat \<Rightarrow> nat \<Rightarrow> 'a")

definition amap :: "('a \<Rightarrow> 'b) \<Rightarrow> 'a ndarray \<Rightarrow> 'b ndarray" where
  "amap f a = NDArray (nrows a) (ncols a) (\<lambda>i j. f (cell a i j))"

text \<open>
  numpy's broadcasting of a binary operator: two extents agree when they are equal or
  one of them is 1, and the axis of extent 1 is repeated.
\<close>

definition broadcast_dim :: "nat \<Rightarrow> nat \<Rightarrow> nat option" where
  "broadcast_dim m n = (if m = n then Some m
                        else if m = 1 then Some n
                        else if n = 1 then Some m
                        else None)"

definition bcell :: "'a ndarray \<Rightarrow> nat \<Rightarrow> nat \<Rightarrow> 'a" where
  "bcell a i j = cell a (if nrows a = 1 then 0 else i) (if ncols a = 1 then 0 else j)"

fun str_nat :: "nat \<Rightarrow> string" where
  "str_nat n = (if n < 10 then [''0123456789'' ! n]
                else str_nat (n div 10) @ [''0123456789'' ! (n mod 10)])"

declare str_nat.simps [simp del]

definition str_int :: "int \<Rightarrow> string" where
  "str_int i = (if i < 0 then ''-'' @ str_nat (nat (- i)) else str_nat (nat i))"

definition shape_str :: "'a ndarray \<Rightarrow> string" where
  "shape_str a = ''('' @ str_nat (nrows a) @ '','' @ str_nat (ncols a) @ '')''"

definition broadcast_msg :: "'a ndarray \<Rightarrow> 'b ndarray \<Rightarrow> string" where
  "broadcast_msg a b =
     ''operands could not be broadcast together with shapes '' @ shape_str a @ '' ''
       @ shape_str b @ '' ''"

definition elementwise ::
  "('a \<Rightarrow> 'b \<Rightarrow> 'c) \<Rightarrow> 'a ndarray \<Rightarrow> 'b ndarray \<Rightarrow> exn + 'c ndarray" where
  "elementwise f a b =
     (case broadcast_dim (nrows a) (nrows b) of
        None \<Rightarrow> Inl (ValueError (broadcast_msg a b))
      | Some h \<Rightarrow>
          (case broadcast_dim (ncols a) (ncols b) of
             None \<Rightarrow> Inl (ValueError (broadcast_msg a b))
           | Some w \<Rightarrow> Inr (NDArray h w (\<lambda>i j. f (bcell a i j) (bcell b i j)))))"

subsection \<open>The index computation (lines 30 to 44)\<close>

text \<open>\<^verbatim>\<open>ndvi[np.isnan(ndvi)] = 0\<close> and \<^verbatim>\<open>ndvi[np.isinf(ndvi)] = 0\<close> on one value.\<close>

definition zero_nan :: "f32 \<Rightarrow> f32" where
  "zero_nan x = (if isnan x then Finite 0 else x)"

definition zero_inf :: "f32 \<Rightarrow> f32" where
  "zero_inf x = (if isinf x then Finite 0 else x)"

definition ndvi_array :: "sample ndarray \<Rightarrow> sample ndarray \<Rightarrow> exn + f32 ndarray" where
  "ndvi_array red_band nir_band =
     (let red = amap astype_float32 red_band;
          nir = amap astype_float32 nir_band
      in case elementwise fsub nir red of
           Inl e \<Rightarrow> Inl e
         | Inr num \<Rightarrow>
             (case elementwise fadd nir red of
                Inl e \<Rightarrow> Inl e
              | Inr den \<Rightarrow>
                  (case elementwise fdiv num den of
                     Inl e \<Rightarrow> Inl e
                   | Inr ndvi \<Rightarrow>
                       Inr (amap (clip (- 1) 1) (amap zero_inf (amap zero_nan ndvi))))))"

text \<open>What the computation does to one pair of float32 values.\<close>

definition ndvi_pixel :: "f32 \<Rightarrow> f32 \<Rightarrow> f32" where
  "ndvi_pixel red nir =
     clip (- 1) 1 (zero_inf (zero_nan (fdiv (fsub nir red) (fadd nir red))))"

subsection \<open>The raster library\<close>

text \<open>
  A metadata dictionary (\<^verbatim>\<open>src.meta\<close>) maps keys to values; the keys of a raster's
  metadata are driver, dtype, nodata, width, height, count, crs and transform.
\<close>

datatype pyval = PyNone | PyInt int | PyFloat real | PyStr string | PyAffine "real list"

type_synonym meta_dict = "string \<rightharpoonup> pyval"

text \<open>An open source dataset: its metadata and its bands.\<close>

record dataset =
  meta :: meta_dict
  bands :: "sample ndarray list"

definition count :: "dataset \<Rightarrow> int" where
  "count src = int (length (bands src))"

text \<open>\<^verbatim>\<open>src.read(n)\<close> for a band number that the source has checked (line 22).\<close>

definition read :: "dataset \<Rightarrow> int \<Rightarrow> sample ndarray" where
  "read src n = bands src ! nat (n - 1)"

text \<open>
  How a call into the raster library fails: the file is not there, or any other failure
  with its message.
\<close>

datatype io_error = NotFound | IOFailure string

fun raise_io :: "io_error \<Rightarrow> exn" where
  "raise_io NotFound = FileNotFoundError"
| "raise_io (IOFailure m) = RasterioError m"

text \<open>
  The library and the file system behind it are a parameter of the model: what opening
  a path for reading gives, and whether opening a path for writing and writing a band
  to it succeed.
\<close>

record env =
  rasterio_open :: "string \<Rightarrow> io_error + dataset"
  rasterio_create :: "string \<Rightarrow> meta_dict \<Rightarrow> io_error option"
  dest_write :: "string \<Rightarrow> meta_dict \<Rightarrow> f32 ndarray \<Rightarrow> io_error option"

text \<open>The calls the function makes into the library and the lines it prints, in order.\<close>

datatype event =
    OpenRead string
  | ReadBand int
  | OpenWrite string meta_dict
  | WriteBand string "f32 ndarray" int
  | Print string

subsection \<open>The pipeline\<close>

definition invalid_band_msg :: "int \<Rightarrow> int \<Rightarrow> int \<Rightarrow> string" where
  "invalid_band_msg cnt red_band_num nir_band_num =
     ''Invalid band numbers. File has '' @ str_int cnt @ '' bands, ''
       @ ''but Red band '' @ str_int red_band_num @ '' and NIR band ''
       @ str_int nir_band_num @ '' were requested.''"

text \<open>Lines 49 to 58: a copy of the source's metadata with four keys set.\<close>

definition out_meta :: "meta_dict \<Rightarrow> meta_dict" where
  "out_meta src_meta =
     src_meta(''driver'' \<mapsto> PyStr ''GTiff'',
              ''count'' \<mapsto> PyInt 1,
              ''dtype'' \<mapsto> PyStr ''float32'',
              ''nodata'' \<mapsto> PyInt (- 9999))"

text \<open>
  The body of the \<^verbatim>\<open>try\<close> statement (lines 19 to 62): its outcome, an exception or
  normal completion, and the calls made up to there.
\<close>

definition ndvi_try ::
  "env \<Rightarrow> string \<Rightarrow> string \<Rightarrow> int \<Rightarrow> int \<Rightarrow> (exn + unit) \<times> event list" where
  "ndvi_try lib input_path output_path red_band_num nir_band_num =
     (case rasterio_open lib input_path of
        Inl err \<Rightarrow> (Inl (raise_io err), [OpenRead input_path])
      | Inr src \<Rightarrow>
          if \<not> (0 < red_band_num \<and> red_band_num \<le> count src
                \<and> 0 < nir_band_num \<and> nir_band_num \<le> count src)
          then (Inl (ValueError (invalid_band_msg (count src) red_band_num nir_band_num)),
                [OpenRead input_path])
          else
            let reads = [OpenRead input_path, ReadBand red_band_num, ReadBand nir_band_num]
            in case ndvi_array (read src red_band_num) (read src nir_band_num) of
                 Inl e \<Rightarrow> (Inl e, reads)
               | Inr ndvi \<Rightarrow>
                   let m = out_meta (meta src);
                       opened = reads @ [OpenWrite output_path m]
                   in case rasterio_create lib output_path m of
                        Some err \<Rightarrow> (Inl (raise_io err), opened)
                      | None \<Rightarrow>
                          (case dest_write lib output_path m ndvi of
                             Some err \<Rightarrow>
                               (Inl (raise_io err), opened @ [WriteBand output_path ndvi 1])
                           | None \<Rightarrow> (Inr (), opened @ [WriteBand output_path ndvi 1])))"

text \<open>The two \<^verbatim>\<open>except\<close> clauses (lines 66 to 70): what each prints.\<close>

fun report :: "string \<Rightarrow> exn \<Rightarrow> string list" where
  "report input_path FileNotFoundError =
     [''Error: Input file not found at '' @ [CHR 0x27] @ input_path @ [CHR 0x27],
      ''Please run '' @ [CHR 0x27] @ ''create_mock_geotiff.py'' @ [CHR 0x27]
        @ '' first to generate the sample file.'']"
| "report input_path (RasterioError m) = [''An error occurred: '' @ m]"
| "report input_path (ValueError m) = [''An error occurred: '' @ m]"

definition success_msg :: "string \<Rightarrow> string" where
  "success_msg output_path = ''NDVI calculation complete. Output saved to: '' @ output_path"

text \<open>
  The whole function: what its caller gets (an exception, or the normal return of
  \<^verbatim>\<open>None\<close>) and the calls and printed lines of the run.
\<close>

definition calculate_ndvi ::
  "env \<Rightarrow> string \<Rightarrow> string \<Rightarrow> int \<Rightarrow> int \<Rightarrow> (exn + unit) \<times> event list" where
  "calculate_ndvi lib input_path output_path red_band_num nir_band_num =
     (case ndvi_try lib input_path output_path red_band_num nir_band_num of
        (Inr u, tr) \<Rightarrow> (Inr (), tr @ [Print (success_msg output_path)])
      | (Inl e, tr) \<Rightarrow> (Inr (), tr @ map Print (report input_path e)))"

text \<open>The array of a given shape with the same value in every cell (\<^verbatim>\<open>np.full\<close>).\<close>

definition full :: "nat \<Rightarrow> nat \<Rightarrow> 'a \<Rightarrow> 'a ndarray" where
  "full h w v = NDArray h w (\<lambda>i j. v)"

text \<open>The value of a result at a pixel: none when the computation raised or the pixel is
  outside the result.\<close>

definition pixel :: "exn + 'a ndarray \<Rightarrow> nat \<Rightarrow> nat \<Rightarrow> 'a option" where
  "pixel res i j =
     (case res of
        Inl e \<Rightarrow> None
      | Inr a \<Rightarrow> if i < nrows a \<and> j < ncols a then Some (cell a i j) else None)"

subsection \<open>Example rasters\<close>

text \<open>
  The metadata that MockGeotiffGenerator.py writes, for a raster of 2 by 2 pixels, and
  a source of five constant bands with it.
\<close>

definition sample_meta :: meta_dict where
  "sample_meta =
     [''driver'' \<mapsto> PyStr ''GTiff'',
      ''dtype'' \<mapsto> PyStr ''uint16'',
      ''nodata'' \<mapsto> PyNone,
      ''width'' \<mapsto> PyInt 2,
      ''height'' \<mapsto> PyInt 2,
      ''count'' \<mapsto> PyInt 5,
      ''crs'' \<mapsto> PyStr ''EPSG:4326'',
      ''transform'' \<mapsto> PyAffine [1 / 100, 0, 140, 0, - (1 / 100), - 35]]"

definition sample_src :: dataset where
  "sample_src =
     \<lparr>meta = sample_meta,
      bands = [full 2 2 (Num 1000), full 2 2 (Num 3000), full 2 2 (Num 500),
               full 2 2 (Num 0), full 2 2 (Num 4000)]\<rparr>"

text \<open>
  A library with one file, the given source at the given path, and writes that succeed.
  At any other path there is no file and opening fails as the raster library does for a
  missing file: with its own error, whose message is the path followed by
  \<^verbatim>\<open>: No such file or directory\<close>.
\<close>

definition lib_with :: "string \<Rightarrow> dataset \<Rightarrow> env" where
  "lib_with path src =
     \<lparr>rasterio_open =
        (\<lambda>p. if p = path then Inr src
             else Inl (IOFailure (p @ '': No such file or directory''))),
      rasterio_create = (\<lambda>p m. None),
      dest_write = (\<lambda>p m a. None)\<rparr>"

text \<open>Sources whose two bands have different shapes, as after a corrupt read.\<close>

definition stretched_src :: dataset where
  "stretched_src =
     \<lparr>meta = sample_meta, bands = [full 1 1 (Num 1000), full 2 2 (Num 3000)]\<rparr>"

definition mismatched_src :: dataset where
  "mismatched_src =
     \<lparr>meta = sample_meta, bands = [full 256 256 (Num 1000), full 128 128 (Num 3000)]\<rparr>"

section \<open>Properties of the float32 operations\<close>

lemma rne_zero: "rne 0 = 0"
  by (simp add: rne_def)

lemma round_mag_zero: "round_mag 0 = 0"
  by (simp add: round_mag_def)

lemma round32_zero: "round32 0 = Finite 0"
  by (simp add: round32_def round_mag_zero)

lemma round32_minus: "round32 (- x) = fneg (round32 x)"
proof (cases "x = 0")
  case True
  then show ?thesis by (simp add: round32_zero)
next
  case False
  then show ?thesis by (auto simp: round32_def Let_def)
qed

lemma fneg_fneg: "fneg (fneg a) = a"
  by (cases a) simp_all

lemma fadd_commute: "fadd a b = fadd b a"
  by (cases a; cases b) (simp_all add: add.commute)

lemma fadd_fneg: "fadd (fneg a) (fneg b) = fneg (fadd a b)"
proof (cases a; cases b)
  fix x y
  assume "a = Finite x" "b = Finite y"
  moreover have "round32 (- x - y) = fneg (round32 (x + y))"
    using round32_minus [of "x + y"] by simp
  ultimately show ?thesis by simp
qed simp_all

lemma fsub_swap: "fsub b a = fneg (fsub a b)"
proof -
  have "fsub b a = fadd (fneg a) (fneg (fneg b))"
    by (simp add: fsub_def fneg_fneg fadd_commute)
  then show ?thesis
    by (simp add: fadd_fneg fsub_def)
qed

lemma fdiv_fneg: "fdiv (fneg a) b = fneg (fdiv a b)"
proof (cases a; cases b)
  fix x y
  assume "a = Finite x" "b = Finite y"
  moreover have "round32 (- (x / y)) = fneg (round32 (x / y))"
    by (rule round32_minus)
  ultimately show ?thesis by simp
qed simp_all

lemma zero_nan_fneg: "zero_nan (fneg a) = fneg (zero_nan a)"
  by (cases a) (simp_all add: zero_nan_def)

lemma zero_inf_fneg: "zero_inf (fneg a) = fneg (zero_inf a)"
  by (cases a) (simp_all add: zero_inf_def)

lemma clip_fneg: "clip (- 1) 1 (fneg a) = fneg (clip (- 1) 1 a)"
  by (cases a) (auto simp: min_def max_def)

lemma ndvi_pixel_swap: "ndvi_pixel a b = fneg (ndvi_pixel b a)"
proof -
  have "fdiv (fsub b a) (fadd b a) = fneg (fdiv (fsub a b) (fadd a b))"
    using fsub_swap [of b a] fadd_commute [of b a] by (simp add: fdiv_fneg)
  then show ?thesis
    by (simp add: ndvi_pixel_def zero_nan_fneg zero_inf_fneg clip_fneg)
qed

lemma ndvi_pixel_range: "\<exists>v. ndvi_pixel r n = Finite v \<and> - 1 \<le> v \<and> v \<le> 1"
  by (cases "fdiv (fsub n r) (fadd n r)")
     (simp_all add: ndvi_pixel_def zero_nan_def zero_inf_def)

lemma fadd_zero_finite:
  assumes "fadd n r = Finite 0"
  shows "isfinite n \<and> isfinite r"
  using assms by (cases n; cases r) simp_all

lemma fdiv_by_zero: "\<not> isfinite (fdiv a (Finite 0))"
  by (cases a) simp_all

lemma ndvi_pixel_not_finite:
  assumes "\<not> isfinite (fdiv (fsub n r) (fadd n r))"
  shows "ndvi_pixel r n = Finite 0"
  using assms
  by (cases "fdiv (fsub n r) (fadd n r)")
     (simp_all add: ndvi_pixel_def zero_nan_def zero_inf_def)

lemma ndvi_pixel_finite:
  assumes "isfinite (fdiv (fsub n r) (fadd n r))"
  shows "ndvi_pixel r n = clip (- 1) 1 (fdiv (fsub n r) (fadd n r))"
  using assms
  by (cases "fdiv (fsub n r) (fadd n r)")
     (simp_all add: ndvi_pixel_def zero_nan_def zero_inf_def)

lemma fdiv_not_finite_left:
  assumes "\<not> isfinite a"
  shows "\<not> isfinite (fdiv a b)"
  using assms by (cases a; cases b) simp_all

lemma fdiv_not_finite_right:
  assumes "\<not> isfinite b"
  shows "fdiv a b = Finite 0 \<or> \<not> isfinite (fdiv a b)"
  using assms by (cases a; cases b) simp_all

lemma ndvi_pixel_zero_den:
  assumes "fadd n r = Finite 0"
  shows "ndvi_pixel r n = Finite 0"
  using assms fdiv_by_zero [of "fsub n r"] by (simp add: ndvi_pixel_not_finite)

lemma ndvi_pixel_intermediate:
  assumes "\<not> isfinite (fsub n r) \<or> \<not> isfinite (fadd n r)
           \<or> \<not> isfinite (fdiv (fsub n r) (fadd n r))"
  shows "ndvi_pixel r n = Finite 0"
proof (cases "isfinite (fdiv (fsub n r) (fadd n r))")
  case False
  then show ?thesis by (rule ndvi_pixel_not_finite)
next
  case True
  with assms fdiv_not_finite_left [of "fsub n r" "fadd n r"]
  have "\<not> isfinite (fadd n r)" by blast
  with True fdiv_not_finite_right [of "fadd n r" "fsub n r"]
  have "fdiv (fsub n r) (fadd n r) = Finite 0" by blast
  then show ?thesis
    by (simp add: ndvi_pixel_def zero_nan_def zero_inf_def)
qed

lemma ndvi_pixel_same: "ndvi_pixel a a = Finite 0"
proof (cases a)
  case (Finite x)
  have num: "fsub a a = Finite 0"
    using Finite by (simp add: fsub_def round32_zero)
  show ?thesis
  proof (cases "fadd a a")
    case (Finite d)
    show ?thesis
    proof (cases "d = 0")
      case True
      with Finite show ?thesis by (simp add: ndvi_pixel_zero_den)
    next
      case False
      with Finite num show ?thesis
        by (simp add: ndvi_pixel_def round32_zero zero_nan_def zero_inf_def)
    qed
  qed (simp_all add: ndvi_pixel_def num zero_nan_def zero_inf_def)
qed (simp_all add: ndvi_pixel_def fsub_def zero_nan_def zero_inf_def)

section \<open>Properties of the rounding\<close>

text \<open>
  The exponent brackets a normal magnitude between two powers of 2; integers below
  \<open>2 ^ 24\<close> in magnitude, the samples of an 8-bit or 16-bit band among them, are
  float32 numbers; and a result below \<open>2 ^ 24\<close> in magnitude does not overflow.
\<close>

lemma expo_ge1:
  assumes "1 \<le> x"
  shows "2 powi (expo x) \<le> x \<and> x < 2 powi (expo x + 1)"
proof -
  define n where "n = nat \<lfloor>x\<rfloor>"
  have n1: "0 < n" using assms by (simp add: n_def)
  define k where "k = floorlog 2 n"
  have b: "2 ^ (k - 1) \<le> n" "n < 2 ^ k"
    using floorlog_bounds [of n 2] n1 by (simp_all add: k_def)
  have k1: "0 < k" using b(2) n1 by (cases k) simp_all
  have e: "expo x = int k - 1"
    using assms k1 by (simp add: expo_def n_def k_def)
  have nx: "real n \<le> x" "x < real n + 1"
    using assms by (simp_all add: n_def)
  have lo: "(2::real) ^ (k - 1) \<le> real n"
    using of_nat_mono [OF b(1), where 'a = real] by simp
  have "Suc n \<le> 2 ^ k" using b(2) by simp
  then have up: "real n + 1 \<le> 2 ^ k"
    using of_nat_mono [of "Suc n" "2 ^ k", where 'a = real] by simp
  have p1: "(2::real) powi (int k - 1) = 2 ^ (k - 1)"
    using k1 by (simp add: power_int_def nat_diff_distrib')
  have p2: "(2::real) powi (int k - 1 + 1) = 2 ^ k"
    by (simp add: power_int_def)
  show ?thesis
    unfolding e p1 p2 using nx lo up by linarith
qed


lemma expo_lt1:
  assumes "1 / 2 ^ 126 \<le> x" "x < 1"
  shows "2 powi (expo x) \<le> x \<and> x < 2 powi (expo x + 1)"
proof -
  have "(0::real) < 1 / 2 ^ 126" by simp
  then have x0: "0 < x" using assms(1) by linarith
  define c where "c = \<lceil>1 / x\<rceil>"
  define n where "n = nat (c - 1)"
  have inv: "1 < 1 / x" using x0 assms(2) by simp
  have c2: "2 \<le> c" using inv by (simp add: c_def)
  have n1: "0 < n" using c2 by (simp add: n_def)
  have cn: "real_of_int c = real n + 1" using c2 by (simp add: n_def)
  define k where "k = floorlog 2 n"
  have b: "2 ^ (k - 1) \<le> n" "n < 2 ^ k"
    using floorlog_bounds [of n 2] n1 by (simp_all add: k_def)
  have k1: "0 < k" using b(2) n1 by (cases k) simp_all
  have "real_of_int c - 1 < 1 / x \<and> 1 / x \<le> real_of_int c"
    unfolding c_def by (rule ceiling_correct)
  then have lo: "real n < 1 / x" and up: "1 / x \<le> real n + 1"
    using cn by simp_all
  have le126: "1 / x \<le> 2 ^ 126"
    using assms(1) x0 by (simp add: field_simps)
  have "real n < real (2 ^ 126)" using lo le126 by simp
  then have "n < 2 ^ 126"
    by (simp only: of_nat_less_iff)
  then have "k \<le> 126"
    unfolding k_def by (intro floorlog_leI) simp_all
  then have e: "expo x = - int k"
    using assms(2) by (simp add: expo_def c_def n_def k_def)
  have "(2::real) ^ (k - 1) \<le> real n"
    using of_nat_mono [OF b(1), where 'a = real] by simp
  then have A: "(2::real) ^ (k - 1) < 1 / x" using lo by linarith
  have "Suc n \<le> 2 ^ k" using b(2) by simp
  then have "real n + 1 \<le> 2 ^ k"
    using of_nat_mono [of "Suc n" "2 ^ k", where 'a = real] by simp
  then have B: "1 / x \<le> 2 ^ k" using up by linarith
  have p1: "(2::real) powi (- int k) = 1 / 2 ^ k"
    by (simp add: power_int_def field_simps)
  obtain k' where k': "k = Suc k'" using k1 by (cases k) simp_all
  have p2: "(2::real) powi (- int k + 1) = 1 / 2 ^ (k - 1)"
    by (simp add: k' power_int_def field_simps)
  have "1 / 2 ^ k \<le> x"
    using B x0 by (simp add: field_simps)
  moreover have "x < 1 / 2 ^ (k - 1)"
    using A x0 by (simp add: field_simps)
  ultimately show ?thesis
    unfolding e p1 p2 by simp
qed

lemma expo_bounds:
  assumes "1 / 2 ^ 126 \<le> x"
  shows "2 powi (expo x) \<le> x \<and> x < 2 powi (expo x + 1)"
  using assms expo_ge1 [of x] expo_lt1 [of x] by (cases "1 \<le> x") simp_all

lemma rne_of_int: "rne (of_int k) = k"
  by (simp add: rne_def)

lemma rne_le: "of_int (rne y) \<le> y + 1"
proof -
  have "real_of_int \<lfloor>y\<rfloor> \<le> y" by (rule of_int_floor_le)
  moreover have "real_of_int (rne y) \<le> of_int \<lfloor>y\<rfloor> + 1"
    by (simp add: rne_def Let_def)
  ultimately show ?thesis by linarith
qed

lemma expo_le_23:
  assumes "x < 2 ^ 24"
  shows "expo x \<le> 23"
proof (cases "1 \<le> x")
  case True
  have "\<lfloor>x\<rfloor> < 2 ^ 24"
    using assms by (simp add: floor_less_iff)
  then have "nat \<lfloor>x\<rfloor> < 2 ^ 24"
    using True by (simp add: nat_less_iff)
  then have "floorlog 2 (nat \<lfloor>x\<rfloor>) \<le> 24"
    by (intro floorlog_leI) simp_all
  then show ?thesis
    using True by (simp add: expo_def)
next
  case False
  then show ?thesis by (simp add: expo_def)
qed

lemma round_mag_le:
  assumes "0 \<le> x" "x < 2 ^ 24"
  shows "round_mag x \<le> x + 1"
proof (cases "x = 0")
  case True
  then show ?thesis by (simp add: round_mag_zero)
next
  case False
  have e: "expo x \<le> 23" using assms(2) by (rule expo_le_23)
  show ?thesis
  proof (cases "expo x = 23")
    case True
    then show ?thesis
      using False rne_le [of x] by (simp add: round_mag_def)
  next
    case ne: False
    define p :: real where "p = 2 ^ nat (23 - expo x)"
    have p1: "1 \<le> p" by (simp add: p_def)
    have "of_int (rne (x * p)) \<le> x * p + 1" by (rule rne_le)
    then have "of_int (rne (x * p)) / p \<le> (x * p + 1) / p"
      using p1 by (simp add: divide_right_mono)
    also have "\<dots> = x + 1 / p"
      using p1 by (simp add: field_simps)
    also have "\<dots> \<le> x + 1"
      using p1 by (simp add: field_simps)
    finally show ?thesis
      using False e ne by (simp add: round_mag_def p_def Let_def)
  qed
qed

lemma round32_finite:
  assumes "\<bar>x\<bar> < 2 ^ 24"
  shows "isfinite (round32 x)"
proof -
  have "round_mag \<bar>x\<bar> \<le> \<bar>x\<bar> + 1"
    using assms by (intro round_mag_le) simp_all
  also have "\<dots> < 2 ^ 128"
    using assms by simp
  finally show ?thesis
    by (simp add: round32_def Let_def)
qed

lemma round_mag_int:
  assumes "0 \<le> k" "k < 2 ^ 24"
  shows "round_mag (of_int k) = of_int k"
proof (cases "k = 0")
  case True
  then show ?thesis by (simp add: round_mag_zero)
next
  case False
  have "real_of_int k < 2 ^ 24"
    using assms(2) by (metis of_int_less_iff of_int_numeral of_int_power)
  then have e: "expo (of_int k) \<le> 23" by (rule expo_le_23)
  show ?thesis
  proof (cases "expo (of_int k) = 23")
    case True
    then show ?thesis
      using False by (simp add: round_mag_def rne_of_int)
  next
    case ne: False
    define j where "j = nat (23 - expo (of_int k))"
    have "real_of_int k * 2 ^ j = of_int (k * 2 ^ j)" by simp
    then have "rne (real_of_int k * 2 ^ j) = k * 2 ^ j"
      by (simp only: rne_of_int)
    then show ?thesis
      using False e ne by (simp add: round_mag_def Let_def j_def)
  qed
qed

lemma round32_int:
  assumes "\<bar>k\<bar> < 2 ^ 24"
  shows "round32 (of_int k) = Finite (of_int k)"
proof -
  have m: "round_mag \<bar>real_of_int k\<bar> = \<bar>real_of_int k\<bar>"
    using round_mag_int [of "\<bar>k\<bar>"] assms by simp
  have "\<bar>real_of_int k\<bar> < 2 ^ 24"
    using assms by (metis of_int_abs of_int_less_iff of_int_numeral of_int_power)
  then have "\<not> 2 ^ 128 \<le> \<bar>real_of_int k\<bar>" by simp
  then show ?thesis
    by (simp add: round32_def m Let_def del: of_int_abs) 
qed


lemma ndvi_pixel_int:
  fixes a b :: int
  assumes "\<bar>a\<bar> < 2 ^ 23" "\<bar>b\<bar> < 2 ^ 23" "b + a \<noteq> 0"
  shows "ndvi_pixel (astype_float32 (Num (of_int a))) (astype_float32 (Num (of_int b)))
           = clip (- 1) 1 (round32 (of_int (b - a) / of_int (b + a)))"
proof -
  have ra: "round32 (of_int a) = Finite (of_int a)"
    and rb: "round32 (of_int b) = Finite (of_int b)"
    using assms(1,2) by (simp_all add: round32_int)
  have "\<bar>b - a\<bar> < 2 ^ 24" "\<bar>b + a\<bar> < 2 ^ 24"
    using assms(1,2) by simp_all
  then have "round32 (of_int (b - a)) = Finite (of_int (b - a))"
    and "round32 (of_int (b + a)) = Finite (of_int (b + a))"
    by (simp_all only: round32_int)
  then have num: "fsub (Finite (of_int b)) (Finite (of_int a)) = Finite (of_int (b - a))"
    and den: "fadd (Finite (of_int b)) (Finite (of_int a)) = Finite (of_int (b + a))"
    by (simp_all add: fsub_def)
  have "real_of_int \<bar>b - a\<bar> < real_of_int (2 ^ 24)"
    using \<open>\<bar>b - a\<bar> < 2 ^ 24\<close> by (simp only: of_int_less_iff)
  then have x: "\<bar>real_of_int (b - a)\<bar> < 2 ^ 24" by simp
  have "1 \<le> \<bar>b + a\<bar>" using assms(3) by simp
  then have "real_of_int 1 \<le> real_of_int \<bar>b + a\<bar>" by (simp only: of_int_le_iff)
  then have y: "1 \<le> \<bar>real_of_int (b + a)\<bar>" by simp
  have "\<bar>real_of_int (b - a)\<bar> / \<bar>real_of_int (b + a)\<bar> \<le> \<bar>real_of_int (b - a)\<bar> / 1"
    using y by (intro divide_left_mono) simp_all
  then have "\<bar>real_of_int (b - a) / real_of_int (b + a)\<bar> < 2 ^ 24"
    using x by (simp only: abs_divide div_by_1)
  then have fin: "isfinite (round32 (real_of_int (b - a) / real_of_int (b + a)))"
    by (rule round32_finite)
  have q: "fdiv (fsub (Finite (of_int b)) (Finite (of_int a)))
                (fadd (Finite (of_int b)) (Finite (of_int a)))
             = round32 (of_int (b - a) / of_int (b + a))"
    using assms(3) by (simp only: num den fdiv.simps of_int_eq_0_iff if_False)
  show ?thesis
    using ndvi_pixel_finite [of "Finite (of_int b)" "Finite (of_int a)"] fin
    by (simp only: astype_float32.simps ra rb q)
qed

section \<open>The array computation, pixel by pixel\<close>

lemma broadcast_dim_same: "broadcast_dim m m = Some m"
  by (simp add: broadcast_dim_def)

lemma bcell_inside:
  assumes "i < nrows a" "j < ncols a"
  shows "bcell a i j = cell a i j"
  using assms by (auto simp: bcell_def)

lemma ndvi_array_same_shape:
  assumes "nrows red = nrows nir" "ncols red = ncols nir"
  shows "\<exists>c. ndvi_array red nir = Inr (NDArray (nrows red) (ncols red) c)
           \<and> (\<forall>i j. i < nrows red \<longrightarrow> j < ncols red \<longrightarrow>
                c i j = ndvi_pixel (astype_float32 (cell red i j))
                                   (astype_float32 (cell nir i j)))"
  using assms
  by (auto simp: ndvi_array_def elementwise_def amap_def broadcast_dim_same
      ndvi_pixel_def bcell_def)


section \<open>Evaluating the rounding\<close>

lemma floorlog2_eq:
  assumes "2 ^ (k - 1) \<le> n" "n < 2 ^ k"
  shows "floorlog 2 n = k"
proof (rule antisym)
  show "floorlog 2 n \<le> k"
    using assms(2) by (intro floorlog_leI) simp_all
  show "k \<le> floorlog 2 n"
    using assms(1) by (intro floorlog_geI) simp_all
qed

lemma expo_1000: "expo 1000 = 9"
  using floorlog2_eq [of 10 1000] by (simp add: expo_def)

lemma expo_2000: "expo 2000 = 10"
  using floorlog2_eq [of 11 2000] by (simp add: expo_def)

lemma expo_3000: "expo 3000 = 11"
  using floorlog2_eq [of 12 3000] by (simp add: expo_def)

lemma expo_4000: "expo 4000 = 11"
  using floorlog2_eq [of 12 4000] by (simp add: expo_def)

lemma expo_half: "expo (1 / 2) = - 1"
  using floorlog2_eq [of 1 1] by (simp add: expo_def)

lemma round32_1000: "round32 1000 = Finite 1000"
  by (simp add: round32_def round_mag_def expo_1000 rne_def Let_def)

lemma round32_2000: "round32 2000 = Finite 2000"
  by (simp add: round32_def round_mag_def expo_2000 rne_def Let_def)

lemma round32_3000: "round32 3000 = Finite 3000"
  by (simp add: round32_def round_mag_def expo_3000 rne_def Let_def)

lemma round32_4000: "round32 4000 = Finite 4000"
  by (simp add: round32_def round_mag_def expo_4000 rne_def Let_def)

lemma round32_half: "round32 (1 / 2) = Finite (1 / 2)"
  by (simp add: round32_def round_mag_def expo_half rne_def Let_def)

lemma expo_16777217: "expo 16777217 = 24"
  using floorlog2_eq [of 25 16777217] by (simp add: expo_def)

lemma round32_tie_to_even: "round32 16777217 = Finite 16777216"
  by (simp add: round32_def round_mag_def expo_16777217 rne_def Let_def)

lemma expo_third: "expo (1 / 3) = - 2"
  using floorlog2_eq [of 2 2] by (simp add: expo_def)

lemma round32_third: "round32 (1 / 3) = Finite (11184811 / 33554432)"
  by (simp add: round32_def round_mag_def expo_third rne_def Let_def)

lemma ndvi_pixel_1000_3000: "ndvi_pixel (Finite 1000) (Finite 3000) = Finite (1 / 2)"
  by (simp add: ndvi_pixel_def fsub_def round32_2000 round32_4000 round32_half
      zero_nan_def zero_inf_def)

lemma expo_2p126: "expo 85070591730234615865843651857942052864 = 126"
  using floorlog2_eq [of 127 85070591730234615865843651857942052864]
  by (simp add: expo_def)

lemma expo_2p127: "expo 170141183460469231731687303715884105728 = 127"
  using floorlog2_eq [of 128 170141183460469231731687303715884105728]
  by (simp add: expo_def)

lemma expo_3_2p126: "expo 255211775190703847597530955573826158592 = 127"
  using floorlog2_eq [of 128 255211775190703847597530955573826158592]
  by (simp add: expo_def)

lemma expo_5_2p126: "expo 425352958651173079329218259289710264320 = 128"
  using floorlog2_eq [of 129 425352958651173079329218259289710264320]
  by (simp add: expo_def)

lemma round32_2p127:
  "round32 170141183460469231731687303715884105728
     = Finite 170141183460469231731687303715884105728"
  by (simp add: round32_def round_mag_def expo_2p127 rne_def Let_def)

lemma round32_m3_2p126:
  "round32 (- 255211775190703847597530955573826158592)
     = Finite (- 255211775190703847597530955573826158592)"
  by (simp add: round32_def round_mag_def expo_3_2p126 rne_def Let_def)

lemma round32_m2p126:
  "round32 (- 85070591730234615865843651857942052864)
     = Finite (- 85070591730234615865843651857942052864)"
  by (simp add: round32_def round_mag_def expo_2p126 rne_def Let_def)

lemma round32_5_2p126: "round32 425352958651173079329218259289710264320 = PInf"
  by (simp add: round32_def round_mag_def expo_5_2p126 rne_def Let_def)

lemma pixel_same_shape:
  assumes "nrows red = nrows nir" "ncols red = ncols nir" "i < nrows red" "j < ncols red"
  shows "pixel (ndvi_array red nir) i j
           = Some (ndvi_pixel (astype_float32 (cell red i j)) (astype_float32 (cell nir i j)))"
  using ndvi_array_same_shape [OF assms(1,2)] assms(3,4)
  by (auto simp: pixel_def)

lemma pixel_full:
  assumes "i < h" "j < w"
  shows "pixel (ndvi_array (full h w r) (full h w n)) i j
           = Some (ndvi_pixel (astype_float32 r) (astype_float32 n))"
  using pixel_same_shape [of "full h w r" "full h w n" i j] assms
  by (simp add: full_def)

section \<open>The claims about the index values\<close>

text \<open>
  C1 (as amended). For same-shaped bands and every pixel, when the float32 quotient
  \<open>(nir - red) / (nir + red)\<close> is finite the index is that quotient clamped to
  \<open>[-1, 1]\<close>; when it is NaN or infinite, which also happens where \<open>nir + red\<close> is not
  0, the index is 0. The quotient is finite for integer samples below \<open>2 ^ 23\<close> in
  magnitude whose sum is not 0: the index is then the exact quotient, rounded once to
  float32 and clamped.
\<close>

theorem index_is_clamped_finite_quotient:
  assumes "nrows red = nrows nir" "ncols red = ncols nir" "i < nrows red" "j < ncols red"
    and "r = astype_float32 (cell red i j)" "n = astype_float32 (cell nir i j)"
  shows "(isfinite (fdiv (fsub n r) (fadd n r)) \<longrightarrow>
            pixel (ndvi_array red nir) i j = Some (clip (- 1) 1 (fdiv (fsub n r) (fadd n r))))
       \<and> (\<not> isfinite (fdiv (fsub n r) (fadd n r)) \<longrightarrow>
            pixel (ndvi_array red nir) i j = Some (Finite 0))
       \<and> (\<forall>a b :: int.
            cell red i j = Num (of_int a) \<and> cell nir i j = Num (of_int b)
            \<and> \<bar>a\<bar> < 2 ^ 23 \<and> \<bar>b\<bar> < 2 ^ 23 \<and> b + a \<noteq> 0 \<longrightarrow>
            pixel (ndvi_array red nir) i j
              = Some (clip (- 1) 1 (round32 (of_int (b - a) / of_int (b + a)))))"
proof -
  have px: "pixel (ndvi_array red nir) i j = Some (ndvi_pixel r n)"
    using pixel_same_shape [OF assms(1-4)] assms(5,6) by simp
  have "ndvi_pixel r n = clip (- 1) 1 (round32 (of_int (b - a) / of_int (b + a)))"
    if "cell red i j = Num (of_int a)" "cell nir i j = Num (of_int b)"
      "\<bar>a\<bar> < 2 ^ 23" "\<bar>b\<bar> < 2 ^ 23" "b + a \<noteq> 0" for a b :: int
    using ndvi_pixel_int [OF that(3-5)] that(1,2) assms(5,6) by simp
  then show ?thesis
    using px by (simp add: ndvi_pixel_finite ndvi_pixel_not_finite)
qed

theorem index_is_clamped_finite_quotient_witness:
  "isfinite (fdiv (fsub (astype_float32 (Num 3000)) (astype_float32 (Num 1000)))
                  (fadd (astype_float32 (Num 3000)) (astype_float32 (Num 1000))))
   \<and> Num 1000 = Num (of_int 1000) \<and> Num 3000 = Num (of_int 3000)
   \<and> \<bar>1000 :: int\<bar> < 2 ^ 23 \<and> \<bar>3000 :: int\<bar> < 2 ^ 23 \<and> (3000 :: int) + 1000 \<noteq> 0
   \<and> pixel (ndvi_array (full 1 1 (Num 1000)) (full 1 1 (Num 3000))) 0 0
       = Some (Finite (1 / 2))
   \<and> clip (- 1) 1 (round32 (of_int (3000 - 1000) / of_int (3000 + 1000))) = Finite (1 / 2)
   \<and> \<not> isfinite (fdiv (fsub (astype_float32 SNaN) (astype_float32 (Num 1000)))
                       (fadd (astype_float32 SNaN) (astype_float32 (Num 1000))))
   \<and> pixel (ndvi_array (full 1 1 (Num 1000)) (full 1 1 SNaN)) 0 0 = Some (Finite 0)"
  using index_is_clamped_finite_quotient
    [of "full 1 1 (Num 1000)" "full 1 1 (Num 3000)" 0 0
        "astype_float32 (Num 1000)" "astype_float32 (Num 3000)"]
    index_is_clamped_finite_quotient
    [of "full 1 1 (Num 1000)" "full 1 1 SNaN" 0 0
        "astype_float32 (Num 1000)" "astype_float32 SNaN"]
  by (simp add: full_def round32_1000 round32_3000 fsub_def round32_2000 round32_4000
      round32_half)

text \<open>
  C1 as stated fails: with red \<open>= - 3 * 2 ^ 126\<close> and nir \<open>= 2 ^ 127\<close>, both float32
  numbers, \<open>nir + red\<close> is \<open>- 2 ^ 126\<close>, not 0, and \<open>nir - red\<close> overflows. The clamped
  quotient is \<open>- 1\<close> and the index is 0.
\<close>

theorem index_overflow_counterexample:
  "fadd (astype_float32 (Num 170141183460469231731687303715884105728))
        (astype_float32 (Num (- 255211775190703847597530955573826158592)))
     = Finite (- 85070591730234615865843651857942052864)
   \<and> clip (- 1) 1
        (fdiv (fsub (astype_float32 (Num 170141183460469231731687303715884105728))
                    (astype_float32 (Num (- 255211775190703847597530955573826158592))))
              (fadd (astype_float32 (Num 170141183460469231731687303715884105728))
                    (astype_float32 (Num (- 255211775190703847597530955573826158592)))))
     = Finite (- 1)
   \<and> pixel (ndvi_array (full 1 1 (Num (- 255211775190703847597530955573826158592)))
                        (full 1 1 (Num 170141183460469231731687303715884105728))) 0 0
     = Some (Finite 0)"
  by (simp add: pixel_full ndvi_pixel_def fsub_def round32_2p127 round32_m3_2p126
      round32_m2p126 round32_5_2p126 zero_nan_def zero_inf_def)

text \<open>
  C2. For same-shaped bands and every pixel where \<open>nir + red\<close> is 0 in float32 (0/0
  included) the index is exactly 0; this is so wherever the two samples are opposite
  numbers. Wherever the difference, the sum or the quotient is not finite the index is 0
  as well, never NaN and never the no-data value.
\<close>

theorem zero_denominator_gives_zero:
  assumes "nrows red = nrows nir" "ncols red = ncols nir" "i < nrows red" "j < ncols red"
    and "r = astype_float32 (cell red i j)" "n = astype_float32 (cell nir i j)"
  shows "(fadd n r = Finite 0 \<longrightarrow> pixel (ndvi_array red nir) i j = Some (Finite 0))
       \<and> ((\<exists>x. cell red i j = Num x \<and> cell nir i j = Num (- x)) \<longrightarrow>
            pixel (ndvi_array red nir) i j = Some (Finite 0))
       \<and> (\<not> isfinite (fsub n r) \<or> \<not> isfinite (fadd n r)
            \<or> \<not> isfinite (fdiv (fsub n r) (fadd n r)) \<longrightarrow>
          pixel (ndvi_array red nir) i j = Some (Finite 0))"
proof -
  have px: "pixel (ndvi_array red nir) i j = Some (ndvi_pixel r n)"
    using pixel_same_shape [OF assms(1-4)] assms(5,6) by simp
  have "ndvi_pixel r n = Finite 0" if "cell red i j = Num x" "cell nir i j = Num (- x)" for x
  proof -
    have n: "n = fneg r"
      using that assms(5,6) by (simp add: round32_minus)
    show ?thesis
    proof (cases r)
      case (Finite v)
      then have "fadd n r = Finite 0"
        using n by (simp add: round32_zero)
      then show ?thesis by (rule ndvi_pixel_zero_den)
    qed (simp_all add: n ndvi_pixel_intermediate)
  qed
  then show ?thesis
    using px by (auto simp: ndvi_pixel_zero_den ndvi_pixel_intermediate)
qed

theorem zero_denominator_gives_zero_witness:
  "fadd (astype_float32 (Num 0)) (astype_float32 (Num 0)) = Finite 0
   \<and> Num 0 = Num (- 0)
   \<and> \<not> isfinite (fdiv (fsub (astype_float32 (Num 0)) (astype_float32 (Num 0)))
                       (fadd (astype_float32 (Num 0)) (astype_float32 (Num 0))))
   \<and> pixel (ndvi_array (full 1 1 (Num 0)) (full 1 1 (Num 0))) 0 0 = Some (Finite 0)"
  using zero_denominator_gives_zero
    [of "full 1 1 (Num 0)" "full 1 1 (Num 0)" 0 0
        "astype_float32 (Num 0)" "astype_float32 (Num 0)"]
  by (simp add: full_def round32_zero fsub_def)

text \<open>
  C3. For same-shaped bands, finite or not, the index is computed at every pixel and is
  a number of the interval \<open>[-1, 1]\<close>; it is never the no-data value \<open>- 9999\<close>.
\<close>

theorem index_within_range:
  assumes "nrows red = nrows nir" "ncols red = ncols nir" "i < nrows red" "j < ncols red"
  shows "\<exists>v. pixel (ndvi_array red nir) i j = Some (Finite v)
              \<and> - 1 \<le> v \<and> v \<le> 1 \<and> v \<noteq> - 9999"
proof -
  obtain v where "ndvi_pixel (astype_float32 (cell red i j)) (astype_float32 (cell nir i j))
                    = Finite v" and "- 1 \<le> v" and "v \<le> 1"
    using ndvi_pixel_range by blast
  then show ?thesis
    using pixel_same_shape [OF assms] by auto
qed

theorem index_within_range_witness:
  "\<exists>v. pixel (ndvi_array (full 2 3 (Num 1000)) (full 2 3 SNaN)) 1 2 = Some (Finite v)
        \<and> - 1 \<le> v \<and> v \<le> 1 \<and> v \<noteq> - 9999"
  using index_within_range [of "full 2 3 (Num 1000)" "full 2 3 SNaN" 1 2]
  by (simp add: full_def)

text \<open>
  C8. For same-shaped bands \<open>a\<close> and \<open>b\<close> and every pixel, the index of \<open>(a, b)\<close> is
  the negation of the index of \<open>(b, a)\<close>; where both are 0 this is the equation
  \<open>0 = - 0\<close>.
\<close>

theorem swap_negates_index:
  assumes "nrows a = nrows b" "ncols a = ncols b" "i < nrows a" "j < ncols a"
  shows "\<exists>x y. pixel (ndvi_array a b) i j = Some x \<and> pixel (ndvi_array b a) i j = Some y
               \<and> x = fneg y"
proof -
  have "pixel (ndvi_array b a) i j
          = Some (ndvi_pixel (astype_float32 (cell b i j)) (astype_float32 (cell a i j)))"
    using assms by (intro pixel_same_shape) simp_all
  moreover have "pixel (ndvi_array a b) i j
          = Some (ndvi_pixel (astype_float32 (cell a i j)) (astype_float32 (cell b i j)))"
    by (rule pixel_same_shape [OF assms])
  moreover have "ndvi_pixel (astype_float32 (cell a i j)) (astype_float32 (cell b i j))
                   = fneg (ndvi_pixel (astype_float32 (cell b i j)) (astype_float32 (cell a i j)))"
    by (rule ndvi_pixel_swap)
  ultimately show ?thesis by simp
qed

theorem swap_negates_index_witness:
  "pixel (ndvi_array (full 1 1 (Num 1000)) (full 1 1 (Num 3000))) 0 0 = Some (Finite (1 / 2))
   \<and> (\<exists>y. pixel (ndvi_array (full 1 1 (Num 3000)) (full 1 1 (Num 1000))) 0 0 = Some y
           \<and> Finite (1 / 2) = fneg y)"
  using swap_negates_index [of "full 1 1 (Num 1000)" "full 1 1 (Num 3000)" 0 0]
  by (simp add: pixel_full round32_1000 round32_3000 ndvi_pixel_1000_3000)
    (simp add: full_def)

section \<open>Properties of the pipeline\<close>

lemma raise_io_not_ValueError: "raise_io err \<noteq> ValueError m"
  by (cases err) simp_all

lemma shape_str_amap: "shape_str (amap f a) = shape_str a"
  by (simp add: shape_str_def amap_def)

lemma broadcast_msg_amap: "broadcast_msg (amap f a) (amap g b) = broadcast_msg a b"
  by (simp add: broadcast_msg_def shape_str_amap)

lemma broadcast_msg_not_invalid: "broadcast_msg a b \<noteq> invalid_band_msg c r n"
  by (simp add: broadcast_msg_def invalid_band_msg_def)

lemma amap_sel [simp]:
  "nrows (amap f a) = nrows a" "ncols (amap f a) = ncols a"
  "cell (amap f a) i j = f (cell a i j)"
  by (simp_all add: amap_def)

lemma elementwise_error:
  assumes "elementwise f a b = Inl e"
  shows "e = ValueError (broadcast_msg a b)"
  using assms by (auto simp: elementwise_def split: option.splits)

lemma ndvi_array_error:
  assumes "ndvi_array red nir = Inl e"
  shows "\<exists>s. e = ValueError (''operands could not be broadcast together with shapes '' @ s)"
proof -
  have "\<exists>s. e = ValueError (''operands could not be broadcast together with shapes '' @ s)"
    if "elementwise f a b = Inl e" for f :: "f32 \<Rightarrow> f32 \<Rightarrow> f32" and a b
    using elementwise_error [OF that] by (simp add: broadcast_msg_def)
  with assms show ?thesis
    unfolding ndvi_array_def Let_def by (auto split: sum.splits)
qed

lemma ndvi_array_error_not_invalid:
  assumes "ndvi_array red nir = Inl e"
  shows "e \<noteq> ValueError (invalid_band_msg c r n)"
  using ndvi_array_error [OF assms] by (auto simp: invalid_band_msg_def)

lemma ndvi_array_not_broadcastable:
  assumes "broadcast_dim (nrows nir) (nrows red) = None
           \<or> broadcast_dim (ncols nir) (ncols red) = None"
  shows "ndvi_array red nir = Inl (ValueError (broadcast_msg nir red))"
proof -
  have "elementwise fsub (amap astype_float32 nir) (amap astype_float32 red)
          = Inl (ValueError (broadcast_msg nir red))"
    using assms
    by (auto simp: elementwise_def broadcast_msg_amap split: option.splits)
  then show ?thesis
    by (simp add: ndvi_array_def)
qed

lemma ndvi_array_broadcastable:
  assumes "broadcast_dim (nrows nir) (nrows red) = Some h"
    and "broadcast_dim (ncols nir) (ncols red) = Some w"
  shows "\<exists>c. ndvi_array red nir = Inr (NDArray h w c)"
  using assms
  by (simp add: ndvi_array_def elementwise_def broadcast_dim_same Let_def amap_def)

lemma ndvi_try_no_print: "Print l \<notin> set (snd (ndvi_try lib inp outp r n))"
  by (auto simp: ndvi_try_def Let_def split: sum.splits option.splits)

lemma report_not_success: "success_msg outp \<notin> set (report inp e)"
  by (cases e) (simp_all add: success_msg_def)

lemma str_digit: "n < 10 \<Longrightarrow> str_nat n = [''0123456789'' ! n]"
  by (simp add: str_nat.simps)

lemma ndvi_try_valid:
  assumes "rasterio_open lib inp = Inr src" "0 < r" "r \<le> count src" "0 < n" "n \<le> count src"
  shows "ndvi_try lib inp outp r n =
     (case ndvi_array (read src r) (read src n) of
        Inl e \<Rightarrow> (Inl e, [OpenRead inp, ReadBand r, ReadBand n])
      | Inr ndvi \<Rightarrow>
          (case rasterio_create lib outp (out_meta (meta src)) of
             Some err \<Rightarrow>
               (Inl (raise_io err),
                [OpenRead inp, ReadBand r, ReadBand n, OpenWrite outp (out_meta (meta src))])
           | None \<Rightarrow>
               (case dest_write lib outp (out_meta (meta src)) ndvi of
                  Some err \<Rightarrow>
                    (Inl (raise_io err),
                     [OpenRead inp, ReadBand r, ReadBand n,
                      OpenWrite outp (out_meta (meta src)), WriteBand outp ndvi 1])
                | None \<Rightarrow>
                    (Inr (),
                     [OpenRead inp, ReadBand r, ReadBand n,
                      OpenWrite outp (out_meta (meta src)), WriteBand outp ndvi 1]))))"
  using assms
  by (simp add: ndvi_try_def Let_def split: sum.splits option.splits)

lemma read_sample_src:
  "count sample_src = 5" "read sample_src 1 = full 2 2 (Num 1000)"
  "read sample_src 2 = full 2 2 (Num 3000)"
  by (simp_all add: sample_src_def count_def read_def)

section \<open>The claims about the pipeline\<close>

lemma ndvi_array_sample_src:
  "ndvi_array (read sample_src 1) (read sample_src 2)
     = Inr (NDArray 2 2 (\<lambda>i j. Finite (1 / 2)))"
  by (simp add: read_sample_src ndvi_array_def elementwise_def broadcast_dim_def
      bcell_def amap_def full_def round32_1000 round32_3000 fsub_def round32_2000
      round32_4000 round32_half zero_nan_def zero_inf_def)

lemma ndvi_try_sample_src:
  "ndvi_try (lib_with ''sample_multiband.tif'' sample_src) ''sample_multiband.tif''
     ''ndvi_output.tif'' 1 2
     = (Inr (), [OpenRead ''sample_multiband.tif'', ReadBand 1, ReadBand 2,
                 OpenWrite ''ndvi_output.tif'' (out_meta sample_meta),
                 WriteBand ''ndvi_output.tif'' (NDArray 2 2 (\<lambda>i j. Finite (1 / 2))) 1])"
proof -
  have o: "rasterio_open (lib_with ''sample_multiband.tif'' sample_src)
             ''sample_multiband.tif'' = Inr sample_src"
    by (simp add: lib_with_def)
  show ?thesis
    by (simp add: ndvi_try_valid [OF o] read_sample_src(1) ndvi_array_sample_src)
      (simp add: lib_with_def sample_src_def)
qed

text \<open>
  C4 (as amended). No failure reaches the caller of \<^verbatim>\<open>calculate_ndvi\<close>: the function
  returns normally on every input. A failure of a step ends the \<^verbatim>\<open>try\<close> body there, so
  that no later step runs (a failure to open the input leaves nothing but that call), and
  the function prints the lines of that failure and not the line of success: two fixed
  lines for \<open>FileNotFoundError\<close>, and \<^verbatim>\<open>An error occurred:\<close> with the message for
  any other exception. Without a failure it prints the line of success.
\<close>

theorem failures_are_printed_not_raised:
  "fst (calculate_ndvi lib inp outp r n) = Inr ()
   \<and> (\<forall>e tr. ndvi_try lib inp outp r n = (Inl e, tr) \<longrightarrow>
         Print (''NDVI calculation complete. Output saved to: '' @ outp)
           \<notin> set (snd (calculate_ndvi lib inp outp r n))
         \<and> (e = FileNotFoundError \<longrightarrow>
              snd (calculate_ndvi lib inp outp r n)
                = tr @ [Print (''Error: Input file not found at '' @ [CHR 0x27] @ inp
                               @ [CHR 0x27]),
                        Print (''Please run '' @ [CHR 0x27] @ ''create_mock_geotiff.py''
                               @ [CHR 0x27] @ '' first to generate the sample file.'')])
         \<and> (\<forall>m. e = RasterioError m \<or> e = ValueError m \<longrightarrow>
              snd (calculate_ndvi lib inp outp r n)
                = tr @ [Print (''An error occurred: '' @ m)]))
   \<and> (\<forall>err. rasterio_open lib inp = Inl err \<longrightarrow>
         ndvi_try lib inp outp r n = (Inl (raise_io err), [OpenRead inp]))
   \<and> (\<forall>tr. ndvi_try lib inp outp r n = (Inr (), tr) \<longrightarrow>
         snd (calculate_ndvi lib inp outp r n)
           = tr @ [Print (''NDVI calculation complete. Output saved to: '' @ outp)])"
proof (intro conjI allI impI)
  show "fst (calculate_ndvi lib inp outp r n) = Inr ()"
    by (simp add: calculate_ndvi_def split: prod.splits sum.splits)
next
  fix e tr
  assume t: "ndvi_try lib inp outp r n = (Inl e, tr)"
  have "Print (success_msg outp) \<notin> set tr"
    using ndvi_try_no_print [of "success_msg outp" lib inp outp r n] t by simp
  then have "Print (success_msg outp) \<notin> set (tr @ map Print (report inp e))"
    using report_not_success [of outp inp e] by auto
  then show "Print (''NDVI calculation complete. Output saved to: '' @ outp)
               \<notin> set (snd (calculate_ndvi lib inp outp r n))"
    using t by (simp add: calculate_ndvi_def success_msg_def)
next
  fix e tr
  assume "ndvi_try lib inp outp r n = (Inl e, tr)" and "e = FileNotFoundError"
  then show "snd (calculate_ndvi lib inp outp r n)
                = tr @ [Print (''Error: Input file not found at '' @ [CHR 0x27] @ inp
                               @ [CHR 0x27]),
                        Print (''Please run '' @ [CHR 0x27] @ ''create_mock_geotiff.py''
                               @ [CHR 0x27] @ '' first to generate the sample file.'')]"
    by (simp add: calculate_ndvi_def)
next
  fix e tr m
  assume "ndvi_try lib inp outp r n = (Inl e, tr)" and "e = RasterioError m \<or> e = ValueError m"
  then show "snd (calculate_ndvi lib inp outp r n) = tr @ [Print (''An error occurred: '' @ m)]"
    by (auto simp: calculate_ndvi_def)
next
  fix err
  assume "rasterio_open lib inp = Inl err"
  then show "ndvi_try lib inp outp r n = (Inl (raise_io err), [OpenRead inp])"
    by (simp add: ndvi_try_def)
next
  fix tr
  assume "ndvi_try lib inp outp r n = (Inr (), tr)"
  then show "snd (calculate_ndvi lib inp outp r n)
               = tr @ [Print (''NDVI calculation complete. Output saved to: '' @ outp)]"
    by (simp add: calculate_ndvi_def success_msg_def)
qed

theorem failures_are_printed_not_raised_witness:
  "rasterio_open (lib_with ''sample_multiband.tif'' sample_src) ''missing.tif''
     = Inl (IOFailure ''missing.tif: No such file or directory'')
   \<and> ndvi_try (lib_with ''sample_multiband.tif'' sample_src) ''missing.tif'' ''out.tif'' 1 2
     = (Inl (RasterioError ''missing.tif: No such file or directory''),
        [OpenRead ''missing.tif''])
   \<and> calculate_ndvi (lib_with ''sample_multiband.tif'' sample_src) ''missing.tif''
        ''out.tif'' 1 2
     = (Inr (),
        [OpenRead ''missing.tif'',
         Print ''An error occurred: missing.tif: No such file or directory''])
   \<and> calculate_ndvi (lib_with ''sample_multiband.tif'' sample_src) ''sample_multiband.tif''
        ''ndvi_output.tif'' 1 2
     = (Inr (),
        [OpenRead ''sample_multiband.tif'', ReadBand 1, ReadBand 2,
         OpenWrite ''ndvi_output.tif'' (out_meta sample_meta),
         WriteBand ''ndvi_output.tif'' (NDArray 2 2 (\<lambda>i j. Finite (1 / 2))) 1,
         Print ''NDVI calculation complete. Output saved to: ndvi_output.tif''])"
proof -
  have o: "rasterio_open (lib_with ''sample_multiband.tif'' sample_src) ''missing.tif''
             = Inl (IOFailure ''missing.tif: No such file or directory'')"
    by (simp add: lib_with_def)
  show ?thesis
    using failures_are_printed_not_raised
      [of "lib_with ''sample_multiband.tif'' sample_src" "''missing.tif''" "''out.tif''" 1 2]
      failures_are_printed_not_raised
      [of "lib_with ''sample_multiband.tif'' sample_src" "''sample_multiband.tif''"
          "''ndvi_output.tif''" 1 2]
    by (simp add: o ndvi_try_sample_src prod_eq_iff)
qed

text \<open>
  C4 as stated fails: with no file at the input path the body of the \<^verbatim>\<open>try\<close> fails
  with the library's error, and the caller gets the normal return, as on success.
\<close>

theorem missing_file_absorbed_counterexample:
  "fst (ndvi_try (lib_with ''sample_multiband.tif'' sample_src) ''missing.tif'' ''out.tif'' 1 2)
     = Inl (RasterioError ''missing.tif: No such file or directory'')
   \<and> fst (calculate_ndvi (lib_with ''sample_multiband.tif'' sample_src) ''missing.tif''
            ''out.tif'' 1 2)
     = Inr ()
   \<and> fst (calculate_ndvi (lib_with ''sample_multiband.tif'' sample_src)
            ''sample_multiband.tif'' ''ndvi_output.tif'' 1 2)
     = Inr ()"
  by (simp add: ndvi_try_def lib_with_def calculate_ndvi_def split: sum.splits prod.splits)

text \<open>
  C5. Once the source is open, the body fails with the error of line 23 exactly when the
  red or the nir band number is below 1 or above the band count; it has then read no
  band, and the message, which \<^verbatim>\<open>calculate_ndvi\<close> prints, holds the band count and both
  requested numbers.
\<close>

theorem invalid_band_exactly_when_out_of_range:
  assumes "rasterio_open lib inp = Inr src"
  shows "(fst (ndvi_try lib inp outp r n) = Inl (ValueError (invalid_band_msg (count src) r n))
            \<longleftrightarrow> r < 1 \<or> count src < r \<or> n < 1 \<or> count src < n)
       \<and> (r < 1 \<or> count src < r \<or> n < 1 \<or> count src < n \<longrightarrow>
            snd (ndvi_try lib inp outp r n) = [OpenRead inp]
            \<and> snd (calculate_ndvi lib inp outp r n)
                = [OpenRead inp,
                   Print (''An error occurred: Invalid band numbers. File has ''
                          @ str_int (count src) @ '' bands, but Red band '' @ str_int r
                          @ '' and NIR band '' @ str_int n @ '' were requested.'')])"
proof (cases "r < 1 \<or> count src < r \<or> n < 1 \<or> count src < n")
  case True
  then have "ndvi_try lib inp outp r n
               = (Inl (ValueError (invalid_band_msg (count src) r n)), [OpenRead inp])"
    using assms by (auto simp: ndvi_try_def)
  then show ?thesis
    using True by (simp add: calculate_ndvi_def invalid_band_msg_def)
next
  case False
  have "fst (ndvi_try lib inp outp r n) \<noteq> Inl (ValueError (invalid_band_msg (count src) r n))"
    using assms False
    by (auto simp: ndvi_try_def Let_def raise_io_not_ValueError
        split: sum.splits option.splits dest: ndvi_array_error_not_invalid)
  then show ?thesis
    using False by simp
qed

theorem invalid_band_exactly_when_out_of_range_witness:
  "rasterio_open (lib_with ''sample_multiband.tif'' sample_src) ''sample_multiband.tif''
     = Inr sample_src
   \<and> count sample_src < 6
   \<and> calculate_ndvi (lib_with ''sample_multiband.tif'' sample_src) ''sample_multiband.tif''
        ''ndvi_output.tif'' 6 2
     = (Inr (),
        [OpenRead ''sample_multiband.tif'',
         Print (''An error occurred: Invalid band numbers. File has 5 bands, ''
                @ ''but Red band 6 and NIR band 2 were requested.'')])
   \<and> fst (ndvi_try (lib_with ''sample_multiband.tif'' sample_src) ''sample_multiband.tif''
            ''ndvi_output.tif'' 1 2)
     \<noteq> Inl (ValueError (''Invalid band numbers. File has 5 bands, ''
                         @ ''but Red band 1 and NIR band 2 were requested.''))"
proof -
  have opened: "rasterio_open (lib_with ''sample_multiband.tif'' sample_src)
                  ''sample_multiband.tif'' = Inr sample_src"
    by (simp add: lib_with_def)
  have "fst (calculate_ndvi (lib_with ''sample_multiband.tif'' sample_src)
               ''sample_multiband.tif'' ''ndvi_output.tif'' 6 2) = Inr ()"
    by (simp add: calculate_ndvi_def split: prod.splits sum.splits)
  then show ?thesis
    using invalid_band_exactly_when_out_of_range [OF opened, of "''ndvi_output.tif''" 6 2]
      invalid_band_exactly_when_out_of_range [OF opened, of "''ndvi_output.tif''" 1 2] opened
    by (simp add: read_sample_src str_int_def str_digit prod_eq_iff invalid_band_msg_def)
qed

lemma str_nat_128: "str_nat 128 = ''128''"
  by (simp add: str_nat.simps [of 128] str_nat.simps [of 12] str_digit)

lemma str_nat_256: "str_nat 256 = ''256''"
  by (simp add: str_nat.simps [of 256] str_nat.simps [of 25] str_digit)

lemma read_mismatched_src:
  "count mismatched_src = 2" "read mismatched_src 1 = full 256 256 (Num 1000)"
  "read mismatched_src 2 = full 128 128 (Num 3000)"
  by (simp_all add: mismatched_src_def count_def read_def)

lemma read_stretched_src:
  "count stretched_src = 2" "read stretched_src 1 = full 1 1 (Num 1000)"
  "read stretched_src 2 = full 2 2 (Num 3000)"
  by (simp_all add: stretched_src_def count_def read_def)

lemma full_sel [simp]:
  "nrows (full h w v) = h" "ncols (full h w v) = w" "cell (full h w v) i j = v"
  by (simp_all add: full_def)

lemma shape_error_printed:
  assumes "rasterio_open lib inp = Inr src" "0 < r" "r \<le> count src" "0 < n" "n \<le> count src"
    and "broadcast_dim (nrows (read src n)) (nrows (read src r)) = None
         \<or> broadcast_dim (ncols (read src n)) (ncols (read src r)) = None"
  shows "calculate_ndvi lib inp outp r n
           = (Inr (), [OpenRead inp, ReadBand r, ReadBand n,
                       Print (''An error occurred: ''
                              @ broadcast_msg (read src n) (read src r))])"
  using ndvi_array_not_broadcastable [OF assms(6)]
  by (simp add: calculate_ndvi_def ndvi_try_valid [OF assms(1-5)])

lemma broadcast_repeats:
  assumes "broadcast_dim (nrows nir) (nrows red) = Some h"
    and "broadcast_dim (ncols nir) (ncols red) = Some w"
    and "i < h" "j < w"
  shows "pixel (ndvi_array red nir) i j
           = Some (ndvi_pixel (astype_float32 (bcell red i j)) (astype_float32 (bcell nir i j)))"
  using assms
  by (auto simp: ndvi_array_def elementwise_def broadcast_dim_same Let_def amap_def
      pixel_def bcell_def ndvi_pixel_def)

text \<open>
  C6 (as amended). With the source open and both band numbers valid: when the shapes of
  the two bands cannot be broadcast (an extent differs and neither is 1, as 256 by 256
  against 128 by 128), the body fails at the subtraction with numpy's \<open>ValueError\<close>,
  after the two reads and before the output is opened; when they can (equal, or an
  extent is 1), no \<open>ValueError\<close> is raised and the output is opened.
\<close>

theorem shape_error_only_when_not_broadcastable:
  assumes "rasterio_open lib inp = Inr src" "0 < r" "r \<le> count src" "0 < n" "n \<le> count src"
    and "red = read src r" "nir = read src n"
  shows "(broadcast_dim (nrows nir) (nrows red) = None
            \<or> broadcast_dim (ncols nir) (ncols red) = None \<longrightarrow>
          ndvi_try lib inp outp r n
            = (Inl (ValueError (broadcast_msg nir red)), [OpenRead inp, ReadBand r, ReadBand n]))
       \<and> (broadcast_dim (nrows nir) (nrows red) \<noteq> None
            \<and> broadcast_dim (ncols nir) (ncols red) \<noteq> None \<longrightarrow>
          (\<forall>m. fst (ndvi_try lib inp outp r n) \<noteq> Inl (ValueError m))
          \<and> OpenWrite outp (out_meta (meta src)) \<in> set (snd (ndvi_try lib inp outp r n)))"
proof (intro conjI impI)
  assume "broadcast_dim (nrows nir) (nrows red) = None
            \<or> broadcast_dim (ncols nir) (ncols red) = None"
  then have "ndvi_array red nir = Inl (ValueError (broadcast_msg nir red))"
    by (rule ndvi_array_not_broadcastable)
  then show "ndvi_try lib inp outp r n
               = (Inl (ValueError (broadcast_msg nir red)), [OpenRead inp, ReadBand r, ReadBand n])"
    using assms(6,7) by (simp add: ndvi_try_valid [OF assms(1-5)])
next
  assume "broadcast_dim (nrows nir) (nrows red) \<noteq> None
            \<and> broadcast_dim (ncols nir) (ncols red) \<noteq> None"
  then obtain h w where "broadcast_dim (nrows nir) (nrows red) = Some h"
    and "broadcast_dim (ncols nir) (ncols red) = Some w"
    by auto
  then obtain c where ok: "ndvi_array red nir = Inr (NDArray h w c)"
    using ndvi_array_broadcastable by blast
  show "\<forall>m. fst (ndvi_try lib inp outp r n) \<noteq> Inl (ValueError m)"
    using ok assms(6,7)
    by (simp add: ndvi_try_valid [OF assms(1-5)] raise_io_not_ValueError split: option.splits)
  show "OpenWrite outp (out_meta (meta src)) \<in> set (snd (ndvi_try lib inp outp r n))"
    using ok assms(6,7)
    by (simp add: ndvi_try_valid [OF assms(1-5)] split: option.splits)
qed

theorem shape_error_only_when_not_broadcastable_witness:
  "rasterio_open (lib_with ''in.tif'' mismatched_src) ''in.tif'' = Inr mismatched_src
   \<and> broadcast_dim (nrows (read mismatched_src 2)) (nrows (read mismatched_src 1)) = None
   \<and> ndvi_try (lib_with ''in.tif'' mismatched_src) ''in.tif'' ''out.tif'' 1 2
       = (Inl (ValueError (''operands could not be broadcast together with shapes ''
                           @ ''(128,128) (256,256) '')),
          [OpenRead ''in.tif'', ReadBand 1, ReadBand 2])
   \<and> broadcast_dim (nrows (read sample_src 2)) (nrows (read sample_src 1)) = Some 2
   \<and> broadcast_dim (ncols (read sample_src 2)) (ncols (read sample_src 1)) = Some 2
   \<and> OpenWrite ''out.tif'' (out_meta (meta sample_src))
       \<in> set (snd (ndvi_try (lib_with ''in.tif'' sample_src) ''in.tif'' ''out.tif'' 1 2))"
proof -
  have o1: "rasterio_open (lib_with ''in.tif'' mismatched_src) ''in.tif'' = Inr mismatched_src"
    and o2: "rasterio_open (lib_with ''in.tif'' sample_src) ''in.tif'' = Inr sample_src"
    by (simp_all add: lib_with_def)
  have "ndvi_try (lib_with ''in.tif'' mismatched_src) ''in.tif'' ''out.tif'' 1 2
       = (Inl (ValueError (''operands could not be broadcast together with shapes ''
                           @ ''(128,128) (256,256) '')),
          [OpenRead ''in.tif'', ReadBand 1, ReadBand 2])"
    using shape_error_only_when_not_broadcastable
      [OF o1, of 1 2 "read mismatched_src 1" "read mismatched_src 2" "''out.tif''"]
    by (simp add: read_mismatched_src broadcast_dim_def broadcast_msg_def shape_str_def
        str_nat_128 str_nat_256)
  moreover have "OpenWrite ''out.tif'' (out_meta (meta sample_src))
       \<in> set (snd (ndvi_try (lib_with ''in.tif'' sample_src) ''in.tif'' ''out.tif'' 1 2))"
    using shape_error_only_when_not_broadcastable
      [OF o2, of 1 2 "read sample_src 1" "read sample_src 2" "''out.tif''"]
    by (simp add: read_sample_src broadcast_dim_def)
  ultimately show ?thesis
    using o1 by (simp add: read_mismatched_src read_sample_src broadcast_dim_def)
qed

text \<open>
  C6 as stated fails: a red band of shape 1 by 1 and a nir band of shape 2 by 2 differ
  in shape, and the body raises nothing: numpy repeats the single red sample, the index
  is computed (0.5 at pixel (1, 1)) and the output is opened and written.
\<close>

theorem broadcast_shapes_counterexample:
  "nrows (read stretched_src 1) = 1 \<and> ncols (read stretched_src 1) = 1
   \<and> nrows (read stretched_src 2) = 2 \<and> ncols (read stretched_src 2) = 2
   \<and> pixel (ndvi_array (read stretched_src 1) (read stretched_src 2)) 1 1
       = Some (Finite (1 / 2))
   \<and> fst (ndvi_try (lib_with ''in.tif'' stretched_src) ''in.tif'' ''out.tif'' 1 2) = Inr ()
   \<and> OpenWrite ''out.tif'' (out_meta sample_meta)
       \<in> set (snd (ndvi_try (lib_with ''in.tif'' stretched_src) ''in.tif'' ''out.tif'' 1 2))"
proof -
  have o: "rasterio_open (lib_with ''in.tif'' stretched_src) ''in.tif'' = Inr stretched_src"
    by (simp add: lib_with_def)
  have a: "ndvi_array (read stretched_src 1) (read stretched_src 2)
             = Inr (NDArray 2 2 (\<lambda>i j. Finite (1 / 2)))"
    by (simp add: read_stretched_src ndvi_array_def elementwise_def broadcast_dim_def
        bcell_def amap_def full_def round32_1000 round32_3000 fsub_def round32_2000
        round32_4000 round32_half zero_nan_def zero_inf_def)
  have t: "ndvi_try (lib_with ''in.tif'' stretched_src) ''in.tif'' ''out.tif'' 1 2
             = (Inr (), [OpenRead ''in.tif'', ReadBand 1, ReadBand 2,
                         OpenWrite ''out.tif'' (out_meta sample_meta),
                         WriteBand ''out.tif'' (NDArray 2 2 (\<lambda>i j. Finite (1 / 2))) 1])"
    by (simp add: ndvi_try_valid [OF o] read_stretched_src(1) a)
      (simp add: lib_with_def stretched_src_def)
  have "nrows (read stretched_src 1) = 1 \<and> ncols (read stretched_src 1) = 1
        \<and> nrows (read stretched_src 2) = 2 \<and> ncols (read stretched_src 2) = 2"
    by (simp add: read_stretched_src)
  then show ?thesis
    by (simp add: t a pixel_def)
qed

text \<open>
  C7. For a GeoTIFF source, the input the function is written for, the output metadata
  has the width, height, crs and transform of the source, count 1, dtype float32 and
  nodata \<open>- 9999\<close>, and no key other than count, dtype and nodata differs from the
  source's: the driver that line 54 sets is the source's own.
\<close>

theorem out_meta_changes_only_three_fields:
  assumes "m ''driver'' = Some (PyStr ''GTiff'')"
  shows "out_meta m ''width'' = m ''width''
       \<and> out_meta m ''height'' = m ''height''
       \<and> out_meta m ''crs'' = m ''crs''
       \<and> out_meta m ''transform'' = m ''transform''
       \<and> out_meta m ''count'' = Some (PyInt 1)
       \<and> out_meta m ''dtype'' = Some (PyStr ''float32'')
       \<and> out_meta m ''nodata'' = Some (PyInt (- 9999))
       \<and> (\<forall>k. k \<notin> {''count'', ''dtype'', ''nodata''} \<longrightarrow> out_meta m k = m k)"
  using assms by (auto simp: out_meta_def)

theorem out_meta_changes_only_three_fields_witness:
  "sample_meta ''driver'' = Some (PyStr ''GTiff'')
   \<and> ''driver'' \<notin> {''count'', ''dtype'', ''nodata''}
   \<and> out_meta sample_meta ''driver'' = Some (PyStr ''GTiff'')
   \<and> out_meta sample_meta ''width'' = Some (PyInt 2)
   \<and> out_meta sample_meta ''height'' = Some (PyInt 2)
   \<and> out_meta sample_meta ''crs'' = Some (PyStr ''EPSG:4326'')
   \<and> out_meta sample_meta ''transform''
       = Some (PyAffine [1 / 100, 0, 140, 0, - (1 / 100), - 35])
   \<and> sample_meta ''count'' = Some (PyInt 5)
   \<and> out_meta sample_meta ''count'' = Some (PyInt 1)
   \<and> sample_meta ''dtype'' = Some (PyStr ''uint16'')
   \<and> out_meta sample_meta ''dtype'' = Some (PyStr ''float32'')
   \<and> sample_meta ''nodata'' = Some PyNone
   \<and> out_meta sample_meta ''nodata'' = Some (PyInt (- 9999))"
proof -
  have d: "sample_meta ''driver'' = Some (PyStr ''GTiff'')"
    by (simp add: sample_meta_def)
  show ?thesis
    using out_meta_changes_only_three_fields [of sample_meta] d
    by (simp add: sample_meta_def)
qed

text \<open>
  C9. Equal band numbers within the band count pass the check of line 22: the body
  raises no \<open>ValueError\<close>, reads the band twice and goes on to open the output. The
  index computed from a band and itself is 0 at every pixel, and that array is the one
  written.
\<close>

theorem equal_band_numbers_give_zero:
  assumes "rasterio_open lib inp = Inr src" "0 < b" "b \<le> count src"
  shows "\<exists>a. ndvi_array (read src b) (read src b) = Inr a
           \<and> nrows a = nrows (read src b) \<and> ncols a = ncols (read src b)
           \<and> (\<forall>i < nrows a. \<forall>j < ncols a. cell a i j = Finite 0)
           \<and> (\<forall>m. fst (ndvi_try lib inp outp b b) \<noteq> Inl (ValueError m))
           \<and> take 4 (snd (ndvi_try lib inp outp b b))
               = [OpenRead inp, ReadBand b, ReadBand b, OpenWrite outp (out_meta (meta src))]
           \<and> (rasterio_create lib outp (out_meta (meta src)) = None \<longrightarrow>
                WriteBand outp a 1 \<in> set (snd (ndvi_try lib inp outp b b)))"
proof -
  obtain c where a: "ndvi_array (read src b) (read src b)
                       = Inr (NDArray (nrows (read src b)) (ncols (read src b)) c)"
    and c: "\<forall>i j. i < nrows (read src b) \<longrightarrow> j < ncols (read src b) \<longrightarrow>
              c i j = ndvi_pixel (astype_float32 (cell (read src b) i j))
                                 (astype_float32 (cell (read src b) i j))"
    using ndvi_array_same_shape [of "read src b" "read src b"] by auto
  have zero: "\<forall>i < nrows (read src b). \<forall>j < ncols (read src b). c i j = Finite 0"
    using c by (simp add: ndvi_pixel_same)
  have run: "(\<forall>m. fst (ndvi_try lib inp outp b b) \<noteq> Inl (ValueError m))
      \<and> take 4 (snd (ndvi_try lib inp outp b b))
          = [OpenRead inp, ReadBand b, ReadBand b, OpenWrite outp (out_meta (meta src))]
      \<and> (rasterio_create lib outp (out_meta (meta src)) = None \<longrightarrow>
           WriteBand outp (NDArray (nrows (read src b)) (ncols (read src b)) c) 1
             \<in> set (snd (ndvi_try lib inp outp b b)))"
    using assms(2,3)
    by (simp add: ndvi_try_valid [OF assms(1)] a raise_io_not_ValueError split: option.splits)
  show ?thesis
    using a zero run by simp
qed

theorem equal_band_numbers_give_zero_witness:
  "rasterio_open (lib_with ''sample_multiband.tif'' sample_src) ''sample_multiband.tif''
     = Inr sample_src
   \<and> (0::int) < 2 \<and> 2 \<le> count sample_src
   \<and> pixel (ndvi_array (read sample_src 2) (read sample_src 2)) 1 1 = Some (Finite 0)
   \<and> fst (ndvi_try (lib_with ''sample_multiband.tif'' sample_src) ''sample_multiband.tif''
            ''ndvi_output.tif'' 2 2) \<noteq> Inl (ValueError [])"
proof -
  have o: "rasterio_open (lib_with ''sample_multiband.tif'' sample_src)
             ''sample_multiband.tif'' = Inr sample_src"
    by (simp add: lib_with_def)
  show ?thesis
    using equal_band_numbers_give_zero [OF o, of 2 "''ndvi_output.tif''"] o
    by (auto simp: read_sample_src pixel_def)
qed

end
